theory Spec2Isabelle
  imports Complex_Main "HOL-Library.Sublist"
begin

section \<open>The FMAP planning adapter (\<^verbatim>\<open>up_fmap/fmap_planner.py\<close>)\<close>

text \<open>
  The adapter turns a multi-agent planning problem into a command line for the FMAP jar,
  runs it as a child process and classifies what came back. Everything the adapter calls
  but does not define (the temporary-directory module, the MA-PDDL writer, the subprocess
  layer, the plan parser) is a field of the record \<open>env\<close>; the file system is the
  record \<open>world\<close>, passed in and returned. An exception is the left summand of a result.
\<close>

subsection \<open>Data\<close>

datatype exn =
    AssertionError
  | Propagated string  \<comment> \<open>an exception of a collaborator, which the adapter never catches\<close>

datatype PlanGenerationResultStatus =
    SOLVED_SATISFICING
  | SOLVED_OPTIMALLY
  | UNSOLVABLE_PROVEN
  | UNSOLVABLE_INCOMPLETELY
  | TIMEOUT
  | MEMOUT
  | INTERNAL_ERROR
  | UNSUPPORTED_PROBLEM
  | INTERMEDIATE

datatype LogLevel = DEBUG | INFO | WARNING | ERROR

record LogMessage =
  level :: LogLevel
  message :: string

datatype plan = Plan "string list"  \<comment> \<open>opaque to the adapter: what the parser returns\<close>

record PlanGenerationResult =
  status :: PlanGenerationResultStatus
  plan :: "plan option"
  engine_name :: string
  log_messages :: "LogMessage list"

record agent =
  name :: string

record MultiAgentProblem =
  agents :: "agent list"

datatype problem =
    MA MultiAgentProblem
  | Single  \<comment> \<open>any problem that is not an instance of \<^verbatim>\<open>MultiAgentProblem\<close>\<close>

record FMAPsolver =
  search_algorithm :: "string option"
  heuristic :: "string option"

text \<open>
  The file system: the directories and the regular files that exist, by path. Paths are
  POSIX paths.
\<close>

record world =
  dirs :: "string set"
  files :: "string set"

text \<open>
  \<^verbatim>\<open>Popen.communicate(timeout=...)\<close> either returns the two byte strings, after which
  \<^verbatim>\<open>returncode\<close> is the exit code, or raises \<^verbatim>\<open>TimeoutExpired\<close>, which leaves
  \<^verbatim>\<open>returncode\<close> as it was, or raises something else.
\<close>

datatype communicate_outcome =
    Completed string string int
  | TimeoutExpired
  | CommunicateRaised exn

record Popen =
  returncode :: "int option"

type_synonym exec_res = "bool \<times> (string list \<times> string list) \<times> int option"

type_synonym 'a effect = "world \<Rightarrow> (exn + 'a) \<times> world"

record env =
  resource_filename :: "string \<Rightarrow> string \<Rightarrow> string"
  mkdtemp :: "world \<Rightarrow> exn + string"
  write_ma_domain :: "MultiAgentProblem \<Rightarrow> string \<Rightarrow> unit effect"
  write_ma_problem :: "MultiAgentProblem \<Rightarrow> string \<Rightarrow> unit effect"
  spawn :: "string list \<Rightarrow> unit effect"
  communicate :: "string list \<Rightarrow> real option \<Rightarrow> world \<Rightarrow> communicate_outcome \<times> world"
  decode :: "string \<Rightarrow> exn + string"
  win32 :: bool
  USE_ASYNCIO_ON_UNIX :: bool
  run_command_asyncio :: "string list \<Rightarrow> nat \<Rightarrow> real option \<Rightarrow> exec_res effect"
  run_command_posix_select :: "string list \<Rightarrow> nat \<Rightarrow> real option \<Rightarrow> exec_res effect"
  plan_from_file :: "MultiAgentProblem \<Rightarrow> string \<Rightarrow> world \<Rightarrow> exn + plan"

text \<open>How a block of statements is left: by an exception, by \<^verbatim>\<open>return\<close>, or at its end.\<close>

datatype 'a flow = Raise exn | Return PlanGenerationResult | Next 'a

subsection \<open>Paths and the temporary directory\<close>

text \<open>\<^verbatim>\<open>os.path.join\<close> of two components (\<^verbatim>\<open>posixpath.join\<close>).\<close>

definition os_path_join :: "string \<Rightarrow> string \<Rightarrow> string" where
  "os_path_join a b =
     (if take 1 b = ''/'' then b
      else if a = [] \<or> last a = CHR ''/'' then a @ b
      else a @ ''/'' @ b)"

definition isfile :: "world \<Rightarrow> string \<Rightarrow> bool" where
  "isfile w p = (p \<in> files w)"

text \<open>
  \<^verbatim>\<open>tempfile.TemporaryDirectory()\<close> entered by \<^verbatim>\<open>with\<close>: a directory of a name picked by
  the module is created.
\<close>

definition TemporaryDirectory :: "env \<Rightarrow> string effect" where
  "TemporaryDirectory e w =
     (case mkdtemp e w of
        Inl x \<Rightarrow> (Inl x, w)
      | Inr d \<Rightarrow> (Inr d, w\<lparr>dirs := insert d (dirs w)\<rparr>))"

text \<open>Leaving the \<^verbatim>\<open>with\<close> block removes the directory and everything below it.\<close>

definition cleanup :: "string \<Rightarrow> world \<Rightarrow> world" where
  "cleanup d w =
     w\<lparr>dirs := Set.filter (\<lambda>p. p \<noteq> d \<and> \<not> prefix (d @ ''/'') p) (dirs w),
       files := Set.filter (\<lambda>p. \<not> prefix (d @ ''/'') p) (files w)\<rparr>"

subsection \<open>The command line\<close>

text \<open>The property \<^verbatim>\<open>name\<close> of the solver.\<close>

definition FMAPsolver_name :: "FMAPsolver \<Rightarrow> string" where
  "FMAPsolver_name self = ''FMAP''"

text \<open>
  \<^verbatim>\<open>_manage_parameters\<close>: two tests in sequence, each extending the list. (Here and
  below a method keeps its name without the leading underscore.)
\<close>

definition manage_parameters :: "FMAPsolver \<Rightarrow> string list \<Rightarrow> string list" where
  "manage_parameters self command =
     (let command = (if search_algorithm self \<noteq> None
                     then command @ [''-s'', the (search_algorithm self)] else command);
          command = (if heuristic self \<noteq> None
                     then command @ [''-h'', the (heuristic self)] else command)
      in command)"

text \<open>The loop of \<^verbatim>\<open>_get_cmd_ma\<close> over \<^verbatim>\<open>problem.agents\<close>: two \<^verbatim>\<open>extend\<close> calls per agent.\<close>

fun extend_agents :: "string \<Rightarrow> string \<Rightarrow> string \<Rightarrow> agent list \<Rightarrow> string list \<Rightarrow> string list" where
  "extend_agents directory domain_filename problem_filename [] base_command = base_command"
| "extend_agents directory domain_filename problem_filename (ag # ags) base_command =
     extend_agents directory domain_filename problem_filename ags
       ((base_command
           @ [name ag @ ''_type'', directory @ domain_filename @ name ag @ ''_domain.pddl''])
           @ [directory @ problem_filename @ name ag @ ''_problem.pddl''])"

text \<open>\<^verbatim>\<open>_get_cmd_ma\<close>.\<close>

definition get_cmd_ma ::
  "env \<Rightarrow> FMAPsolver \<Rightarrow> MultiAgentProblem \<Rightarrow> string \<Rightarrow> string \<Rightarrow> string \<Rightarrow> string list" where
  "get_cmd_ma e self problem domain_filename problem_filename plan_filename =
     (let base_command = [''java'', ''-jar'', resource_filename e ''up_fmap'' ''FMAP/FMAP.jar''];
          directory = ''ma_pddl_'';
          base_command =
            extend_agents directory domain_filename problem_filename (agents problem) base_command
      in manage_parameters self base_command)"

subsection \<open>Classification\<close>

text \<open>
  \<^verbatim>\<open>_result_status\<close>. The return code is \<^verbatim>\<open>None\<close> while the child has not been waited
  for, and \<^verbatim>\<open>None != 0\<close> holds in Python.
\<close>

definition result_status ::
  "FMAPsolver \<Rightarrow> MultiAgentProblem \<Rightarrow> plan option \<Rightarrow> int option \<Rightarrow> LogMessage list
     \<Rightarrow> PlanGenerationResultStatus" where
  "result_status self problem pl retval logs =
     (if retval \<noteq> Some 0 then INTERNAL_ERROR
      else if pl = None then UNSOLVABLE_PROVEN
      else SOLVED_SATISFICING)"

subsection \<open>Running the child process\<close>

text \<open>
  Lines 142 to 182 of \<^verbatim>\<open>solve_ma\<close>: without an output stream, \<^verbatim>\<open>Popen\<close> and
  \<^verbatim>\<open>communicate\<close>, where only \<^verbatim>\<open>TimeoutExpired\<close> is caught; with one, the runner of the
  framework that the platform selects.
\<close>

definition run_process :: "env \<Rightarrow> string list \<Rightarrow> real option \<Rightarrow> nat option \<Rightarrow> exec_res effect" where
  "run_process e cmd timeout output_stream w =
     (case output_stream of
        None \<Rightarrow>
          (case spawn e cmd w of
             (Inl x, w1) \<Rightarrow> (Inl x, w1)
           | (Inr _, w1) \<Rightarrow>
               (let process = \<lparr>returncode = None\<rparr> in
                case communicate e cmd timeout w1 of
                  (Completed out err rc, w2) \<Rightarrow>
                    (case decode e out of
                       Inl x \<Rightarrow> (Inl x, w2)
                     | Inr proc_out \<Rightarrow>
                         (case decode e err of
                            Inl x \<Rightarrow> (Inl x, w2)
                          | Inr proc_err \<Rightarrow>
                              (Inr (False, ([proc_out], [proc_err]),
                                    returncode (process\<lparr>returncode := Some rc\<rparr>)), w2)))
                | (TimeoutExpired, w2) \<Rightarrow> (Inr (True, ([], []), returncode process), w2)
                | (CommunicateRaised x, w2) \<Rightarrow> (Inl x, w2)))
      | Some stream \<Rightarrow>
          (if win32 e then run_command_asyncio e cmd stream timeout w
           else if USE_ASYNCIO_ON_UNIX e then run_command_asyncio e cmd stream timeout w
           else run_command_posix_select e cmd stream timeout w))"

subsection \<open>\<^verbatim>\<open>solve_ma\<close>\<close>

text \<open>
  The first half of the \<^verbatim>\<open>with\<close> block (lines 134 to 182), for the directory
  \<open>tempdir\<close>: the three paths, the two calls of the writer, the command line and the run
  of the child process. It yields \<^verbatim>\<open>plan_filename\<close> and what the process layer returned,
  or the exception of a collaborator.
\<close>

definition launch ::
  "env \<Rightarrow> FMAPsolver \<Rightarrow> MultiAgentProblem \<Rightarrow> string \<Rightarrow> real option \<Rightarrow> nat option
     \<Rightarrow> (string \<times> exec_res) effect" where
  "launch e self problem tempdir timeout output_stream w =
     (let domain_filename = os_path_join tempdir ''domain.pddl/'';
          problem_filename = os_path_join tempdir ''problem.pddl/'';
          plan_filename = os_path_join tempdir ''plan.txt''
      in
      case write_ma_domain e problem domain_filename w of
        (Inl x, w1) \<Rightarrow> (Inl x, w1)
      | (Inr _, w1) \<Rightarrow>
          (case write_ma_problem e problem problem_filename w1 of
             (Inl x, w2) \<Rightarrow> (Inl x, w2)
           | (Inr _, w2) \<Rightarrow>
               (let cmd = get_cmd_ma e self problem domain_filename problem_filename
                            plan_filename
                in case run_process e cmd timeout output_stream w2 of
                     (Inl x, w3) \<Rightarrow> (Inl x, w3)
                   | (Inr exec_res, w3) \<Rightarrow> (Inr (plan_filename, exec_res), w3))))"

text \<open>
  The whole body of the \<^verbatim>\<open>with\<close> block (lines 134 to 196): after \<open>launch\<close>, the two
  log messages, the test for the plan file and the \<^verbatim>\<open>return\<close> of line 191. The block is
  left by an exception of a collaborator, by that \<^verbatim>\<open>return\<close>, or at its end with the
  locals \<^verbatim>\<open>plan\<close>, \<^verbatim>\<open>retval\<close> and \<^verbatim>\<open>logs\<close>.
\<close>

definition solve_ma_scope ::
  "env \<Rightarrow> FMAPsolver \<Rightarrow> MultiAgentProblem \<Rightarrow> string \<Rightarrow> real option \<Rightarrow> nat option \<Rightarrow> world
     \<Rightarrow> (plan option \<times> int option \<times> LogMessage list) flow \<times> world" where
  "solve_ma_scope e self problem tempdir timeout output_stream w =
     (case launch e self problem tempdir timeout output_stream w of
        (Inl x, w3) \<Rightarrow> (Raise x, w3)
      | (Inr (plan_filename, timeout_occurred, (proc_out, proc_err), retval), w3) \<Rightarrow>
          (let logs = [] @ [\<lparr>level = INFO, message = concat proc_out\<rparr>];
               logs = logs @ [\<lparr>level = ERROR, message = concat proc_err\<rparr>]
           in
           case (if isfile w3 plan_filename
                 then (case plan_from_file e problem plan_filename w3 of
                         Inl x \<Rightarrow> Inl x
                       | Inr p \<Rightarrow> Inr (Some p))
                 else Inr None) of
             Inl x \<Rightarrow> (Raise x, w3)
           | Inr pl \<Rightarrow>
               (if timeout_occurred \<and> retval \<noteq> Some 0
                then (Return \<lparr>status = TIMEOUT, plan = pl,
                              engine_name = FMAPsolver_name self, log_messages = logs\<rparr>, w3)
                else (Next (pl, retval, logs), w3))))"

text \<open>
  \<^verbatim>\<open>solve_ma\<close>, with the solver object threaded through: the second component of the
  result is the object after the call. The arguments \<^verbatim>\<open>callback\<close> and \<^verbatim>\<open>heuristic\<close> are
  not read by the method and are left out. The assertion is the first statement; what
  follows it runs inside the \<^verbatim>\<open>with\<close> block, whose exit removes the directory however the
  block is left.
\<close>

definition solve_ma ::
  "env \<Rightarrow> FMAPsolver \<Rightarrow> problem \<Rightarrow> real option \<Rightarrow> nat option \<Rightarrow> world
     \<Rightarrow> (exn + PlanGenerationResult) \<times> FMAPsolver \<times> world" where
  "solve_ma e self problem timeout output_stream w =
     (case problem of
        Single \<Rightarrow> (Inl AssertionError, self, w)
      | MA p \<Rightarrow>
          (case TemporaryDirectory e w of
             (Inl x, w0) \<Rightarrow> (Inl x, self, w0)
           | (Inr tempdir, w0) \<Rightarrow>
               (case solve_ma_scope e self p tempdir timeout output_stream w0 of
                  (fl, w1) \<Rightarrow>
                    (let w2 = cleanup tempdir w1 in
                     case fl of
                       Raise x \<Rightarrow> (Inl x, self, w2)
                     | Return r \<Rightarrow> (Inr r, self, w2)
                     | Next (pl, retval, logs) \<Rightarrow>
                         (let status = result_status self p pl retval logs in
                          (Inr \<lparr>status = status, plan = pl,
                                engine_name = FMAPsolver_name self, log_messages = logs\<rparr>,
                           self, w2))))))"

subsection \<open>The classification table of the specification\<close>

text \<open>
  The four rows of the table, read in their order, over the three observations of a run:
  whether a timeout occurred, the exit code, and whether a plan file was produced. An exit
  code is non-zero when it is not the integer 0.
\<close>

definition classification_table :: "bool \<Rightarrow> int option \<Rightarrow> bool \<Rightarrow> PlanGenerationResultStatus" where
  "classification_table timeout_occurred exit_code plan_file_produced =
     (if timeout_occurred \<and> exit_code \<noteq> Some 0 then TIMEOUT
      else if exit_code \<noteq> Some 0 then INTERNAL_ERROR
      else if \<not> plan_file_produced then UNSOLVABLE_PROVEN
      else SOLVED_SATISFICING)"

subsection \<open>Hypotheses on the environment\<close>




subsection \<open>A fabricated child process\<close>

text \<open>
  An environment in which nothing fails and the child process does as it is told: a
  buffered run ends as \<open>outcome\<close>, a streamed run returns \<open>streamed\<close>, and the file
  \<^verbatim>\<open>/tmp/t0/plan.txt\<close> is written during the run when \<open>writes_plan\<close> holds. The temporary
  directory is always \<^verbatim>\<open>/tmp/t0\<close>.
\<close>

definition fabricated :: "communicate_outcome \<Rightarrow> exec_res \<Rightarrow> bool \<Rightarrow> env" where
  "fabricated outcome streamed writes_plan =
     \<lparr>resource_filename = (\<lambda>pkg r. ''/site/'' @ pkg @ ''/'' @ r),
      mkdtemp = (\<lambda>w. Inr ''/tmp/t0''),
      write_ma_domain = (\<lambda>p d w. (Inr (), w)),
      write_ma_problem = (\<lambda>p d w. (Inr (), w)),
      spawn = (\<lambda>cmd w. (Inr (), w)),
      communicate = (\<lambda>cmd t w.
        (outcome,
         if writes_plan then w\<lparr>files := insert ''/tmp/t0/plan.txt'' (files w)\<rparr> else w)),
      decode = Inr,
      win32 = False,
      USE_ASYNCIO_ON_UNIX = False,
      run_command_asyncio = (\<lambda>cmd s t w. (Inl (Propagated ''no event loop''), w)),
      run_command_posix_select = (\<lambda>cmd s t w.
        (Inr streamed,
         if writes_plan then w\<lparr>files := insert ''/tmp/t0/plan.txt'' (files w)\<rparr> else w)),
      plan_from_file = (\<lambda>p f w. Inr (Plan [''a1'']))\<rparr>"

definition two_agents :: MultiAgentProblem where
  "two_agents = \<lparr>agents = [\<lparr>name = ''depot0''\<rparr>, \<lparr>name = ''truck0''\<rparr>]\<rparr>"

definition plain_solver :: FMAPsolver where
  "plain_solver = \<lparr>search_algorithm = None, heuristic = None\<rparr>"

definition empty_world :: world where
  "empty_world = \<lparr>dirs = {}, files = {}\<rparr>"

text \<open>A clean exit that leaves a plan file, and the file system after one such call.\<close>

definition solving :: env where
  "solving = fabricated (Completed ''out'' ''err'' 0) (False, ([], []), Some 0) True"


section \<open>Properties\<close>

subsection \<open>Auxiliary facts\<close>

lemmas run_defs =
  solve_ma_def solve_ma_scope_def launch_def run_process_def TemporaryDirectory_def
  get_cmd_ma_def manage_parameters_def result_status_def FMAPsolver_name_def
  os_path_join_def isfile_def fabricated_def solving_def two_agents_def plain_solver_def
  empty_world_def Let_def

lemma extend_agents_append:
  "extend_agents dir d p ags acc =
     acc @ concat (map (\<lambda>ag. [name ag @ ''_type'', dir @ d @ name ag @ ''_domain.pddl'',
                               dir @ p @ name ag @ ''_problem.pddl'']) ags)"
  by (induction ags arbitrary: acc) simp_all

lemma manage_parameters_append:
  "manage_parameters self command =
     command @ (case search_algorithm self of None \<Rightarrow> [] | Some a \<Rightarrow> [''-s'', a])
             @ (case heuristic self of None \<Rightarrow> [] | Some h \<Rightarrow> [''-h'', h])"
  by (simp add: manage_parameters_def Let_def split: option.splits)

lemma launch_plan_filename:
  "launch e self p d t os w0 = (Inr (pf, res), w3) \<Longrightarrow> pf = os_path_join d ''plan.txt''"
  by (auto simp: launch_def Let_def split: prod.splits sum.splits)

text \<open>What \<open>solve_ma\<close> does once the directory exists and the process layer has returned.\<close>

lemma solve_ma_after_launch:
  assumes "TemporaryDirectory e w = (Inr d, w0)"
      and "launch e self p d t os w0 = (Inr (pf, to, (out, err), rv), w3)"
  shows "solve_ma e self (MA p) t os w =
     (case (if isfile w3 pf
            then (case plan_from_file e p pf w3 of Inl x \<Rightarrow> Inl x | Inr q \<Rightarrow> Inr (Some q))
            else Inr None) of
        Inl x \<Rightarrow> (Inl x, self, cleanup d w3)
      | Inr pl \<Rightarrow>
          (Inr \<lparr>status = (if to \<and> rv \<noteq> Some 0 then TIMEOUT
                          else if rv \<noteq> Some 0 then INTERNAL_ERROR
                          else if pl = None then UNSOLVABLE_PROVEN
                          else SOLVED_SATISFICING),
                plan = pl, engine_name = ''FMAP'',
                log_messages = [\<lparr>level = INFO, message = concat out\<rparr>,
                                \<lparr>level = ERROR, message = concat err\<rparr>]\<rparr>,
           self, cleanup d w3))"
  using assms
  by (auto simp: solve_ma_def solve_ma_scope_def result_status_def FMAPsolver_name_def Let_def
           split: sum.splits)

text \<open>A call that returns a result was given a multi-agent problem and got past \<open>launch\<close>.\<close>

lemma solve_ma_Inr_launched:
  assumes "fst (solve_ma e self pr t os w) = Inr r"
  obtains p d w0 to out err rv w3 where
    "pr = MA p" "TemporaryDirectory e w = (Inr d, w0)"
    "launch e self p d t os w0 = (Inr (os_path_join d ''plan.txt'', to, (out, err), rv), w3)"
proof (cases pr)
  case Single
  with assms show ?thesis by (simp add: solve_ma_def)
next
  case (MA p)
  obtain a w0 where td: "TemporaryDirectory e w = (a, w0)" by (cases "TemporaryDirectory e w")
  show ?thesis
  proof (cases a)
    case (Inl x)
    with assms MA td show ?thesis by (simp add: solve_ma_def)
  next
    case (Inr d)
    obtain b w3 where la: "launch e self p d t os w0 = (b, w3)"
      by (cases "launch e self p d t os w0")
    show ?thesis
    proof (cases b)
      case (Inl x)
      with assms MA td Inr la show ?thesis
        by (simp add: solve_ma_def solve_ma_scope_def Let_def)
    next
      case (Inr v)
      obtain pf to out err rv where v: "v = (pf, to, (out, err), rv)" by (cases v) auto
      with la Inr have la': "launch e self p d t os w0 = (Inr (pf, to, (out, err), rv), w3)"
        by simp
      from launch_plan_filename[OF la'] have "pf = os_path_join d ''plan.txt''" .
      with la' MA td \<open>a = Inr d\<close> that show ?thesis by blast
    qed
  qed
qed

lemma cleanup_removes: "d \<notin> dirs (cleanup d w)"
  by (simp add: cleanup_def)

lemma solve_ma_final_world:
  assumes "TemporaryDirectory e w = (Inr d, w0)"
  shows "snd (snd (solve_ma e self (MA p) t os w))
           = cleanup d (snd (solve_ma_scope e self p d t os w0))"
  using assms
  by (simp add: solve_ma_def Let_def split: prod.splits flow.splits)






























subsection \<open>Classification\<close>

text \<open>
  C1. Every call of \<open>solve_ma\<close> that returns a result was given a multi-agent problem, got
  its temporary directory and got a timeout flag \<open>to\<close> and a return code \<open>rv\<close> from the
  process layer; the status of the result is the entry of the classification table for
  \<open>to\<close>, \<open>rv\<close> and the presence of the plan file at the check, the rows taken in order. In
  particular a timeout with return code 0 is classified by the two rows for return code 0.
\<close>

theorem solve_ma_status_by_table:
  assumes "fst (solve_ma e self pr t os w) = Inr r"
  shows "\<exists>p d w0 to oe rv w3.
           pr = MA p \<and> TemporaryDirectory e w = (Inr d, w0) \<and>
           launch e self p d t os w0 = (Inr (os_path_join d ''plan.txt'', to, oe, rv), w3) \<and>
           status r = classification_table to rv (isfile w3 (os_path_join d ''plan.txt'')) \<and>
           (to \<and> rv = Some 0 \<longrightarrow>
              status r = (if isfile w3 (os_path_join d ''plan.txt'')
                          then SOLVED_SATISFICING else UNSOLVABLE_PROVEN))"
proof -
  from assms obtain p d w0 to out err rv w3 where
    pr: "pr = MA p" and td: "TemporaryDirectory e w = (Inr d, w0)" and
    la: "launch e self p d t os w0 = (Inr (os_path_join d ''plan.txt'', to, (out, err), rv), w3)"
    by (rule solve_ma_Inr_launched)
  from assms have "status r = classification_table to rv (isfile w3 (os_path_join d ''plan.txt''))"
    unfolding pr solve_ma_after_launch[OF td la]
    by (auto simp: classification_table_def split: if_splits sum.splits)
  then have "status r = classification_table to rv (isfile w3 (os_path_join d ''plan.txt'')) \<and>
           (to \<and> rv = Some 0 \<longrightarrow>
              status r = (if isfile w3 (os_path_join d ''plan.txt'')
                          then SOLVED_SATISFICING else UNSOLVABLE_PROVEN))"
    by (simp add: classification_table_def)
  with pr td la show ?thesis by blast
qed

text \<open>
  A streamed run that timed out with return code 0 and left a plan file: the result is
  \<open>SOLVED_SATISFICING\<close>.
\<close>

theorem solve_ma_status_by_table_witness:
  "fst (solve_ma (fabricated TimeoutExpired (True, ([''searching''], []), Some 0) True)
          plain_solver (MA two_agents) (Some 5) (Some 1) empty_world)
     = Inr \<lparr>status = SOLVED_SATISFICING, plan = Some (Plan [''a1'']), engine_name = ''FMAP'',
            log_messages = [\<lparr>level = INFO, message = ''searching''\<rparr>,
                            \<lparr>level = ERROR, message = []\<rparr>]\<rparr>
   \<and> (\<exists>p d w0 to oe rv w3.
           MA two_agents = MA p \<and>
           TemporaryDirectory (fabricated TimeoutExpired (True, ([''searching''], []), Some 0) True)
             empty_world = (Inr d, w0) \<and>
           launch (fabricated TimeoutExpired (True, ([''searching''], []), Some 0) True)
             plain_solver p d (Some 5) (Some 1) w0
             = (Inr (os_path_join d ''plan.txt'', to, oe, rv), w3) \<and>
           status \<lparr>status = SOLVED_SATISFICING, plan = Some (Plan [''a1'']),
                   engine_name = ''FMAP'',
                   log_messages = [\<lparr>level = INFO, message = ''searching''\<rparr>,
                                   \<lparr>level = ERROR, message = []\<rparr>]\<rparr>
             = classification_table to rv (isfile w3 (os_path_join d ''plan.txt'')) \<and>
           (to \<and> rv = Some 0 \<longrightarrow>
              status \<lparr>status = SOLVED_SATISFICING, plan = Some (Plan [''a1'']),
                      engine_name = ''FMAP'',
                      log_messages = [\<lparr>level = INFO, message = ''searching''\<rparr>,
                                      \<lparr>level = ERROR, message = []\<rparr>]\<rparr>
                = (if isfile w3 (os_path_join d ''plan.txt'')
                   then SOLVED_SATISFICING else UNSOLVABLE_PROVEN)))"
proof -
  have h: "fst (solve_ma (fabricated TimeoutExpired (True, ([''searching''], []), Some 0) True)
          plain_solver (MA two_agents) (Some 5) (Some 1) empty_world)
     = Inr \<lparr>status = SOLVED_SATISFICING, plan = Some (Plan [''a1'']), engine_name = ''FMAP'',
            log_messages = [\<lparr>level = INFO, message = ''searching''\<rparr>,
                            \<lparr>level = ERROR, message = []\<rparr>]\<rparr>"
    by (simp add: run_defs)
  show ?thesis by (rule conjI[OF h solve_ma_status_by_table[OF h]])
qed

subsection \<open>The command line\<close>

text \<open>
  C2. For a problem with N agents the command line of \<open>get_cmd_ma\<close> is the base invocation
  \<^verbatim>\<open>java -jar <jar>\<close>, then one triple per agent, in the order of \<^verbatim>\<open>problem.agents\<close>: the
  name of the agent followed by \<^verbatim>\<open>_type\<close>, the path of its domain file, the path of its
  problem file; then what \<open>manage_parameters\<close> appends, that is the \<^verbatim>\<open>-s\<close> pair if any and
  the \<^verbatim>\<open>-h\<close> pair if any. It has 3 + 3 N tokens before the flags.
\<close>

theorem get_cmd_ma_triples:
  "get_cmd_ma e self p df pf plf =
     [''java'', ''-jar'', resource_filename e ''up_fmap'' ''FMAP/FMAP.jar'']
       @ concat (map (\<lambda>ag. [name ag @ ''_type'',
                              ''ma_pddl_'' @ df @ name ag @ ''_domain.pddl'',
                              ''ma_pddl_'' @ pf @ name ag @ ''_problem.pddl'']) (agents p))
       @ manage_parameters self []
   \<and> length (get_cmd_ma e self p df pf plf)
       = 3 + 3 * length (agents p) + length (manage_parameters self [])
   \<and> manage_parameters self [] =
       (case search_algorithm self of None \<Rightarrow> [] | Some a \<Rightarrow> [''-s'', a])
         @ (case heuristic self of None \<Rightarrow> [] | Some h \<Rightarrow> [''-h'', h])"
proof -
  have shape: "get_cmd_ma e self p df pf plf =
     [''java'', ''-jar'', resource_filename e ''up_fmap'' ''FMAP/FMAP.jar'']
       @ concat (map (\<lambda>ag. [name ag @ ''_type'',
                              ''ma_pddl_'' @ df @ name ag @ ''_domain.pddl'',
                              ''ma_pddl_'' @ pf @ name ag @ ''_problem.pddl'']) (agents p))
       @ manage_parameters self []"
    by (simp add: get_cmd_ma_def Let_def extend_agents_append manage_parameters_append)
  have len: "length (concat (map (\<lambda>ag. [name ag @ ''_type'',
                              ''ma_pddl_'' @ df @ name ag @ ''_domain.pddl'',
                              ''ma_pddl_'' @ pf @ name ag @ ''_problem.pddl'']) ags))
             = 3 * length ags" for ags :: "agent list"
    by (induction ags) simp_all
  have flags: "manage_parameters self [] =
       (case search_algorithm self of None \<Rightarrow> [] | Some a \<Rightarrow> [''-s'', a])
         @ (case heuristic self of None \<Rightarrow> [] | Some h \<Rightarrow> [''-h'', h])"
    by (simp add: manage_parameters_append)
  from shape len flags show ?thesis by simp
qed

text \<open>
  C3, as the code has it. \<open>manage_parameters\<close> tests each parameter against \<^verbatim>\<open>None\<close>, not
  against the empty string: the pair \<^verbatim>\<open>-s <value>\<close> (and likewise \<^verbatim>\<open>-h <value>\<close>) is
  appended exactly when the parameter is set, \<^verbatim>\<open>-s\<close> before \<^verbatim>\<open>-h\<close>, and nothing is appended
  for a parameter that is \<^verbatim>\<open>None\<close>. A parameter set to the empty string is appended like any
  other value.
\<close>

theorem manage_parameters_flags:
  "manage_parameters self command =
     command @ (case search_algorithm self of None \<Rightarrow> [] | Some a \<Rightarrow> [''-s'', a])
             @ (case heuristic self of None \<Rightarrow> [] | Some h \<Rightarrow> [''-h'', h])"
  by (simp add: manage_parameters_def Let_def split: option.splits)

text \<open>
  The search algorithm set to the empty string: the command line ends with \<^verbatim>\<open>-s\<close> and an
  empty value.
\<close>

theorem manage_parameters_empty_value:
  "search_algorithm \<lparr>search_algorithm = Some [], heuristic = None\<rparr> = Some []
   \<and> manage_parameters \<lparr>search_algorithm = Some [], heuristic = None\<rparr>
        [''java'', ''-jar'', ''FMAP.jar'']
      = [''java'', ''-jar'', ''FMAP.jar'', ''-s'', []]"
  by (simp add: manage_parameters_def)



subsection \<open>The plan\<close>

text \<open>
  C4. In every call of \<open>solve_ma\<close> that returns a result, the result carries a plan only if
  the plan file existed when it was tested after the run, and that plan is what the parser
  made of the file; when the file did not exist the plan of the result is absent,
  whatever the status.
\<close>

theorem solve_ma_plan_only_from_file:
  assumes "fst (solve_ma e self pr t os w) = Inr r"
  shows "\<exists>p d w0 res w3.
           pr = MA p \<and> TemporaryDirectory e w = (Inr d, w0) \<and>
           launch e self p d t os w0 = (Inr (os_path_join d ''plan.txt'', res), w3) \<and>
           (plan r \<noteq> None \<longrightarrow> isfile w3 (os_path_join d ''plan.txt'')) \<and>
           (\<not> isfile w3 (os_path_join d ''plan.txt'') \<longrightarrow> plan r = None) \<and>
           (\<forall>q. plan r = Some q \<longrightarrow>
                  plan_from_file e p (os_path_join d ''plan.txt'') w3 = Inr q)"
proof -
  from assms obtain p d w0 to out err rv w3 where
    pr: "pr = MA p" and td: "TemporaryDirectory e w = (Inr d, w0)" and
    la: "launch e self p d t os w0 = (Inr (os_path_join d ''plan.txt'', to, (out, err), rv), w3)"
    by (rule solve_ma_Inr_launched)
  from assms have
    "(plan r \<noteq> None \<longrightarrow> isfile w3 (os_path_join d ''plan.txt'')) \<and>
     (\<not> isfile w3 (os_path_join d ''plan.txt'') \<longrightarrow> plan r = None) \<and>
     (\<forall>q. plan r = Some q \<longrightarrow>
            plan_from_file e p (os_path_join d ''plan.txt'') w3 = Inr q)"
    unfolding pr solve_ma_after_launch[OF td la]
    by (auto split: if_splits sum.splits)
  with pr td la show ?thesis by blast
qed

text \<open>A non-zero exit that left no plan file: the result has no plan.\<close>

theorem solve_ma_plan_only_from_file_witness:
  "fst (solve_ma (fabricated (Completed ''out'' ''err'' 137) (False, ([], []), Some 0) False)
          plain_solver (MA two_agents) None None empty_world)
     = Inr \<lparr>status = INTERNAL_ERROR, plan = None, engine_name = ''FMAP'',
            log_messages = [\<lparr>level = INFO, message = ''out''\<rparr>,
                            \<lparr>level = ERROR, message = ''err''\<rparr>]\<rparr>
   \<and> (\<exists>p d w0 res w3.
         MA two_agents = MA p \<and>
         TemporaryDirectory (fabricated (Completed ''out'' ''err'' 137) (False, ([], []), Some 0) False)
           empty_world = (Inr d, w0) \<and>
         launch (fabricated (Completed ''out'' ''err'' 137) (False, ([], []), Some 0) False)
           plain_solver p d None None w0 = (Inr (os_path_join d ''plan.txt'', res), w3) \<and>
         \<not> isfile w3 (os_path_join d ''plan.txt''))"
proof -
  let ?r = "\<lparr>status = INTERNAL_ERROR, plan = None, engine_name = ''FMAP'',
            log_messages = [\<lparr>level = INFO, message = ''out''\<rparr>,
                            \<lparr>level = ERROR, message = ''err''\<rparr>]\<rparr>"
  let ?e = "fabricated (Completed ''out'' ''err'' 137) (False, ([], []), Some 0) False"
  have h: "fst (solve_ma ?e plain_solver (MA two_agents) None None empty_world) = Inr ?r"
    by (simp add: run_defs)
  from solve_ma_plan_only_from_file[OF h] obtain p d w0 res w3 where
    f: "MA two_agents = MA p" "TemporaryDirectory ?e empty_world = (Inr d, w0)"
       "launch ?e plain_solver p d None None w0 = (Inr (os_path_join d ''plan.txt'', res), w3)"
    by blast
  from f(1) have p: "p = two_agents" by simp
  from f(2) have d: "d = ''/tmp/t0''" "w0 = \<lparr>dirs = {''/tmp/t0''}, files = {}\<rparr>"
    by (auto simp: TemporaryDirectory_def fabricated_def empty_world_def)
  from f(3) have "\<not> isfile w3 (os_path_join d ''plan.txt'')"
    unfolding p d by (auto simp: run_defs)
  with h f show ?thesis by blast
qed

text \<open>
  C5. When the process layer reports a timeout and the return code is not 0, the plan file
  is still looked for before the result is built: if it exists it is parsed and the
  \<open>TIMEOUT\<close> result carries the plan (an exception of the parser is propagated), if it does
  not exist the \<open>TIMEOUT\<close> result has no plan.
\<close>

theorem solve_ma_timeout_keeps_plan:
  assumes "TemporaryDirectory e w = (Inr d, w0)"
      and "launch e self p d t os w0 = (Inr (pf, True, (out, err), rv), w3)"
      and "rv \<noteq> Some 0"
  shows "solve_ma e self (MA p) t os w =
     (if isfile w3 pf
      then (case plan_from_file e p pf w3 of
              Inl x \<Rightarrow> (Inl x, self, cleanup d w3)
            | Inr q \<Rightarrow>
                (Inr \<lparr>status = TIMEOUT, plan = Some q, engine_name = ''FMAP'',
                      log_messages = [\<lparr>level = INFO, message = concat out\<rparr>,
                                      \<lparr>level = ERROR, message = concat err\<rparr>]\<rparr>,
                 self, cleanup d w3))
      else (Inr \<lparr>status = TIMEOUT, plan = None, engine_name = ''FMAP'',
                 log_messages = [\<lparr>level = INFO, message = concat out\<rparr>,
                                 \<lparr>level = ERROR, message = concat err\<rparr>]\<rparr>,
            self, cleanup d w3))"
  using assms(3) unfolding solve_ma_after_launch[OF assms(1,2)]
  by (simp split: sum.splits)

text \<open>A streamed run killed at the timeout (return code -9) that had written a plan file.\<close>

theorem solve_ma_timeout_keeps_plan_witness:
  "TemporaryDirectory (fabricated TimeoutExpired (True, ([''partial''], [''killed'']), Some (- 9)) True)
     empty_world = (Inr ''/tmp/t0'', \<lparr>dirs = {''/tmp/t0''}, files = {}\<rparr>)
   \<and> launch (fabricated TimeoutExpired (True, ([''partial''], [''killed'']), Some (- 9)) True)
       plain_solver two_agents ''/tmp/t0'' (Some 5) (Some 1) \<lparr>dirs = {''/tmp/t0''}, files = {}\<rparr>
     = (Inr (''/tmp/t0/plan.txt'', True, ([''partial''], [''killed'']), Some (- 9)),
        \<lparr>dirs = {''/tmp/t0''}, files = {''/tmp/t0/plan.txt''}\<rparr>)
   \<and> Some (- 9) \<noteq> Some (0 :: int)
   \<and> fst (solve_ma (fabricated TimeoutExpired (True, ([''partial''], [''killed'']), Some (- 9)) True)
            plain_solver (MA two_agents) (Some 5) (Some 1) empty_world)
     = Inr \<lparr>status = TIMEOUT, plan = Some (Plan [''a1'']), engine_name = ''FMAP'',
            log_messages = [\<lparr>level = INFO, message = ''partial''\<rparr>,
                            \<lparr>level = ERROR, message = ''killed''\<rparr>]\<rparr>"
proof -
  let ?e = "fabricated TimeoutExpired (True, ([''partial''], [''killed'']), Some (- 9)) True"
  have td: "TemporaryDirectory ?e empty_world
              = (Inr ''/tmp/t0'', \<lparr>dirs = {''/tmp/t0''}, files = {}\<rparr>)"
    by (simp add: TemporaryDirectory_def fabricated_def empty_world_def)
  have la: "launch ?e plain_solver two_agents ''/tmp/t0'' (Some 5) (Some 1)
              \<lparr>dirs = {''/tmp/t0''}, files = {}\<rparr>
     = (Inr (''/tmp/t0/plan.txt'', True, ([''partial''], [''killed'']), Some (- 9)),
        \<lparr>dirs = {''/tmp/t0''}, files = {''/tmp/t0/plan.txt''}\<rparr>)"
    by (simp add: run_defs)
  have rv: "Some (- 9) \<noteq> Some (0 :: int)" by simp
  have "fst (solve_ma ?e plain_solver (MA two_agents) (Some 5) (Some 1) empty_world)
     = Inr \<lparr>status = TIMEOUT, plan = Some (Plan [''a1'']), engine_name = ''FMAP'',
            log_messages = [\<lparr>level = INFO, message = ''partial''\<rparr>,
                            \<lparr>level = ERROR, message = ''killed''\<rparr>]\<rparr>"
    unfolding solve_ma_timeout_keeps_plan[OF td la rv]
    by (simp add: isfile_def fabricated_def)
  with td la rv show ?thesis by blast
qed

subsection \<open>The temporary directory\<close>

text \<open>
  C6. Once the temporary directory of a call exists, it is gone from the file system that
  the call leaves behind, however the \<^verbatim>\<open>with\<close> block was left: at its end (the results
  \<open>SOLVED_SATISFICING\<close>, \<open>UNSOLVABLE_PROVEN\<close> and \<open>INTERNAL_ERROR\<close>), by the \<^verbatim>\<open>return\<close> of
  the \<open>TIMEOUT\<close> result inside the block, or by an exception of a collaborator.
\<close>

theorem solve_ma_removes_tempdir:
  assumes "TemporaryDirectory e w = (Inr d, w0)"
  shows "d \<in> dirs w0 \<and> d \<notin> dirs (snd (snd (solve_ma e self (MA p) t os w)))"
proof
  from assms show "d \<in> dirs w0"
    by (auto simp: TemporaryDirectory_def split: sum.splits)
  show "d \<notin> dirs (snd (snd (solve_ma e self (MA p) t os w)))"
    by (simp add: solve_ma_final_world[OF assms] cleanup_removes)
qed

text \<open>The early \<open>TIMEOUT\<close> return of a buffered run.\<close>

theorem solve_ma_removes_tempdir_witness:
  "TemporaryDirectory (fabricated TimeoutExpired (False, ([], []), Some 0) False) empty_world
     = (Inr ''/tmp/t0'', \<lparr>dirs = {''/tmp/t0''}, files = {}\<rparr>)
   \<and> ''/tmp/t0'' \<in> dirs \<lparr>dirs = {''/tmp/t0''}, files = {}\<rparr>
   \<and> ''/tmp/t0'' \<notin> dirs (snd (snd (solve_ma
         (fabricated TimeoutExpired (False, ([], []), Some 0) False)
         plain_solver (MA two_agents) (Some 5) None empty_world)))"
proof -
  have td: "TemporaryDirectory (fabricated TimeoutExpired (False, ([], []), Some 0) False)
              empty_world = (Inr ''/tmp/t0'', \<lparr>dirs = {''/tmp/t0''}, files = {}\<rparr>)"
    by (simp add: TemporaryDirectory_def fabricated_def empty_world_def)
  from td solve_ma_removes_tempdir[OF td, of plain_solver two_agents "Some 5" None]
  show ?thesis by blast
qed

subsection \<open>Failing fast\<close>

text \<open>
  C7. Given a problem that is not a multi-agent problem, \<open>solve_ma\<close> raises
  \<^verbatim>\<open>AssertionError\<close> and returns no result; the file system is as it was, so no directory
  was made, nothing was written and no process was started. (Assertions are taken as
  enabled, which is how the interpreter runs unless asked otherwise.)
\<close>

theorem solve_ma_asserts_multi_agent:
  "solve_ma e self Single t os w = (Inl AssertionError, self, w)"
  by (simp add: solve_ma_def)

subsection \<open>No state between calls\<close>




subsection \<open>The buffered run that times out\<close>

text \<open>
  C9. Without an output stream, when \<^verbatim>\<open>communicate\<close> raises \<^verbatim>\<open>TimeoutExpired\<close> the process
  layer yields the timeout flag, two empty buffers and the return code \<^verbatim>\<open>None\<close>. The call
  then returns the status \<open>TIMEOUT\<close>, with an \<open>INFO\<close> and an \<open>ERROR\<close> message that are both
  the empty string, unless the plan file exists and the parser raises on it.
\<close>

theorem solve_ma_buffered_timeout:
  assumes td: "TemporaryDirectory e w = (Inr d, w0)"
      and wd: "write_ma_domain e p (os_path_join d ''domain.pddl/'') w0 = (Inr u1, w1)"
      and wp: "write_ma_problem e p (os_path_join d ''problem.pddl/'') w1 = (Inr u2, w2)"
      and cmd: "cmd = get_cmd_ma e self p (os_path_join d ''domain.pddl/'')
                        (os_path_join d ''problem.pddl/'') (os_path_join d ''plan.txt'')"
      and sp: "spawn e cmd w2 = (Inr u3, w3)"
      and co: "communicate e cmd t w3 = (TimeoutExpired, w4)"
  shows "run_process e cmd t None w2 = (Inr (True, ([], []), None), w4)
   \<and> solve_ma e self (MA p) t None w =
     (case (if isfile w4 (os_path_join d ''plan.txt'')
            then (case plan_from_file e p (os_path_join d ''plan.txt'') w4 of
                    Inl x \<Rightarrow> Inl x | Inr q \<Rightarrow> Inr (Some q))
            else Inr None) of
        Inl x \<Rightarrow> (Inl x, self, cleanup d w4)
      | Inr pl \<Rightarrow>
          (Inr \<lparr>status = TIMEOUT, plan = pl, engine_name = ''FMAP'',
                log_messages = [\<lparr>level = INFO, message = []\<rparr>,
                                \<lparr>level = ERROR, message = []\<rparr>]\<rparr>,
           self, cleanup d w4))"
proof -
  have rp: "run_process e cmd t None w2 = (Inr (True, ([], []), None), w4)"
    using sp co by (simp add: run_process_def)
  have la: "launch e self p d t None w0
              = (Inr (os_path_join d ''plan.txt'', True, ([], []), None), w4)"
    using wd wp rp by (simp add: launch_def Let_def cmd)
  show ?thesis
    unfolding solve_ma_after_launch[OF td la] using rp
    by (simp split: sum.splits)
qed

text \<open>A buffered run that times out and leaves no plan file.\<close>

theorem solve_ma_buffered_timeout_witness:
  "TemporaryDirectory (fabricated TimeoutExpired (False, ([], []), Some 0) False) empty_world
     = (Inr ''/tmp/t0'', \<lparr>dirs = {''/tmp/t0''}, files = {}\<rparr>)
   \<and> communicate (fabricated TimeoutExpired (False, ([], []), Some 0) False)
       [''java'', ''-jar'', ''/site/up_fmap/FMAP/FMAP.jar'',
        ''depot0_type'', ''ma_pddl_/tmp/t0/domain.pddl/depot0_domain.pddl'',
        ''ma_pddl_/tmp/t0/problem.pddl/depot0_problem.pddl'',
        ''truck0_type'', ''ma_pddl_/tmp/t0/domain.pddl/truck0_domain.pddl'',
        ''ma_pddl_/tmp/t0/problem.pddl/truck0_problem.pddl'']
       (Some 5) \<lparr>dirs = {''/tmp/t0''}, files = {}\<rparr>
     = (TimeoutExpired, \<lparr>dirs = {''/tmp/t0''}, files = {}\<rparr>)
   \<and> fst (solve_ma (fabricated TimeoutExpired (False, ([], []), Some 0) False)
            plain_solver (MA two_agents) (Some 5) None empty_world)
     = Inr \<lparr>status = TIMEOUT, plan = None, engine_name = ''FMAP'',
            log_messages = [\<lparr>level = INFO, message = []\<rparr>,
                            \<lparr>level = ERROR, message = []\<rparr>]\<rparr>"
proof -
  let ?e = "fabricated TimeoutExpired (False, ([], []), Some 0) False"
  let ?w = "\<lparr>dirs = {''/tmp/t0''}, files = {}\<rparr>"
  let ?cmd = "[''java'', ''-jar'', ''/site/up_fmap/FMAP/FMAP.jar'',
        ''depot0_type'', ''ma_pddl_/tmp/t0/domain.pddl/depot0_domain.pddl'',
        ''ma_pddl_/tmp/t0/problem.pddl/depot0_problem.pddl'',
        ''truck0_type'', ''ma_pddl_/tmp/t0/domain.pddl/truck0_domain.pddl'',
        ''ma_pddl_/tmp/t0/problem.pddl/truck0_problem.pddl'']"
  have td: "TemporaryDirectory ?e empty_world = (Inr ''/tmp/t0'', ?w)"
    by (simp add: TemporaryDirectory_def fabricated_def empty_world_def)
  have wd: "write_ma_domain ?e two_agents (os_path_join ''/tmp/t0'' ''domain.pddl/'') ?w
              = (Inr (), ?w)"
    by (simp add: fabricated_def)
  have wp: "write_ma_problem ?e two_agents (os_path_join ''/tmp/t0'' ''problem.pddl/'') ?w
              = (Inr (), ?w)"
    by (simp add: fabricated_def)
  have cmd: "?cmd = get_cmd_ma ?e plain_solver two_agents
                      (os_path_join ''/tmp/t0'' ''domain.pddl/'')
                      (os_path_join ''/tmp/t0'' ''problem.pddl/'')
                      (os_path_join ''/tmp/t0'' ''plan.txt'')"
    by (simp add: run_defs)
  have sp: "spawn ?e ?cmd ?w = (Inr (), ?w)"
    by (simp add: fabricated_def)
  have co: "communicate ?e ?cmd (Some 5) ?w = (TimeoutExpired, ?w)"
    by (simp add: fabricated_def)
  have "fst (solve_ma ?e plain_solver (MA two_agents) (Some 5) None empty_world)
     = Inr \<lparr>status = TIMEOUT, plan = None, engine_name = ''FMAP'',
            log_messages = [\<lparr>level = INFO, message = []\<rparr>,
                            \<lparr>level = ERROR, message = []\<rparr>]\<rparr>"
    using solve_ma_buffered_timeout[OF td wd wp cmd sp co]
    by (simp add: isfile_def)
  with td co show ?thesis by blast
qed

end
